theory Spec2Isabelle
  imports Main
begin

section \<open>JavaScript values\<close>

text \<open>
  The values that flow through \<^verbatim>\<open>review.js\<close> are JavaScript primitives: user identifiers
  are strings, absent properties read as \<^verbatim>\<open>undefined\<close>, and the expression
  \<^verbatim>\<open>d.sender && d.delivery_status==='sent'\<close> produces booleans.
\<close>

datatype jsval = JUndefined | JNull | JBool bool | JNum int | JStr string

text \<open>\<^verbatim>\<open>Boolean(v)\<close>: the falsy primitives are undefined, null, false, 0 and the empty string.\<close>

fun Boolean :: "jsval \<Rightarrow> bool" where
  "Boolean JUndefined = False"
| "Boolean JNull = False"
| "Boolean (JBool b) = b"
| "Boolean (JNum n) = (n \<noteq> 0)"
| "Boolean (JStr s) = (s \<noteq> [])"

text \<open>\<^verbatim>\<open>a && b\<close> returns \<^verbatim>\<open>a\<close> when it is falsy and \<^verbatim>\<open>b\<close> otherwise.\<close>

definition js_and :: "jsval \<Rightarrow> jsval \<Rightarrow> jsval" where
  "js_and a b = (if Boolean a then b else a)"

text \<open>
  \<^verbatim>\<open>n > m\<close> where \<^verbatim>\<open>n\<close> is a number and \<^verbatim>\<open>m\<close> is a number or \<^verbatim>\<open>undefined\<close>: a comparison
  with \<^verbatim>\<open>undefined\<close> (which converts to NaN) is false.
\<close>

fun js_gt :: "int \<Rightarrow> int option \<Rightarrow> bool" where
  "js_gt n None = False"
| "js_gt n (Some m) = (n > m)"

text \<open>
  Modelled from the spec: \<^verbatim>\<open>Array.prototype.uniqBy\<close> is defined elsewhere in the
  repository; the spec says of this step "Deduplicate by identity". The model keeps the
  first element of every key and drops the later ones; \<^verbatim>\<open>seen\<close> holds the keys met so far.
\<close>

fun uniqBy_seen :: "('a \<Rightarrow> 'k) \<Rightarrow> 'k list \<Rightarrow> 'a list \<Rightarrow> 'a list" where
  "uniqBy_seen key seen [] = []"
| "uniqBy_seen key seen (x # xs) =
     (if key x \<in> set seen then uniqBy_seen key seen xs
      else x # uniqBy_seen key (key x # seen) xs)"

definition uniqBy :: "('a \<Rightarrow> 'k) \<Rightarrow> 'a list \<Rightarrow> 'a list" where
  "uniqBy key xs = uniqBy_seen key [] xs"

section \<open>The form, its document and its history feeds\<close>

text \<open>An entry of \<^verbatim>\<open>frm.meta.fields\<close>.\<close>

record docfield =
  fieldtype :: string
  options :: jsval
  fieldname :: string

text \<open>An entry of \<^verbatim>\<open>docinfo.communications\<close>.\<close>

record communication =
  sender :: jsval
  delivery_status :: jsval

text \<open>An entry of \<^verbatim>\<open>docinfo.comments\<close>, \<^verbatim>\<open>docinfo.versions\<close> or \<^verbatim>\<open>docinfo.assignments\<close>.\<close>

record entry =
  owner :: jsval

text \<open>
  An energy point log, the review record the ledger returns. The fields are the
  properties \<^verbatim>\<open>type\<close>, \<^verbatim>\<open>points\<close>, \<^verbatim>\<open>user\<close>, \<^verbatim>\<open>owner\<close>, \<^verbatim>\<open>creation\<close> and \<^verbatim>\<open>reason\<close>
  that the component reads.
\<close>

record energy_point_log =
  log_type :: string
  log_points :: int
  log_user :: string
  log_owner :: string
  log_creation :: string
  log_reason :: string

text \<open>The object returned by \<^verbatim>\<open>frm.get_docinfo()\<close>.\<close>

record docinfo =
  communications :: "communication list"
  comments :: "entry list"
  versions :: "entry list"
  assignments :: "entry list"
  energy_point_logs :: "energy_point_log list"

text \<open>
  The form \<^verbatim>\<open>frm\<close>: \<^verbatim>\<open>frm.meta.fields\<close>, the document \<^verbatim>\<open>frm.doc\<close> as a map from property
  names to values, and the docinfo object.
\<close>

record form =
  meta_fields :: "docfield list"
  doc :: "string \<rightharpoonup> jsval"
  get_docinfo :: docinfo

text \<open>\<^verbatim>\<open>doc[field]\<close>: a property the document does not have reads as \<^verbatim>\<open>undefined\<close>.\<close>

definition doc_get :: "(string \<rightharpoonup> jsval) \<Rightarrow> string \<Rightarrow> jsval" where
  "doc_get d field = (case d field of None \<Rightarrow> JUndefined | Some v \<Rightarrow> v)"

section \<open>The pills and their popovers\<close>

text \<open>
  The configuration \<^verbatim>\<open>setup_detail_popover\<close> attaches to a pill: the chosen subject
  template, its \<^verbatim>\<open>message_parts\<close> (magnitude, user, creation time; the display name and
  the relative time are formatted by external helpers), the author and the reason.
\<close>

record detail_popover =
  subject :: string
  message_parts :: "int \<times> string \<times> string"
  by_owner :: string
  body :: string

text \<open>
  A \<^verbatim>\<open>li\<close> element of the review list: its classes, the number it shows and the popover
  attached to it, if any.
\<close>

record pill =
  li_class :: "string list"
  li_text :: int
  popover :: "detail_popover option"

section \<open>Effects and component state\<close>

text \<open>The arguments of the remote \<^verbatim>\<open>review\<close> call.\<close>

record review_args =
  arg_doctype :: jsval
  arg_name :: jsval
  arg_to_user :: string
  arg_points :: int
  arg_review_type :: string
  arg_reason :: string

text \<open>
  Every call the component makes on a collaborator (the dialog, the message box, the
  remote procedure mechanism, the docinfo array, the timeline, the review list element)
  is recorded in program order.
\<close>

datatype effect =
    Dialog_show
  | Dialog_hide
  | Dialog_clear
  | Dialog_disable_primary_action
  | Dialog_enable_primary_action
  | Msgprint string
  | XCall_review review_args
  | XCall_get_energy_points string
  | Logs_unshift energy_point_log
  | Timeline_refresh
  | Reviews_empty
  | Reviews_append pill

text \<open>The object \<^verbatim>\<open>frappe.boot.points\<close>; \<^verbatim>\<open>review_points\<close> may be absent.\<close>

record points_t =
  review_points :: "int option"

text \<open>The two click handlers \<^verbatim>\<open>add_review_button\<close> can bind.\<close>

datatype handler = Return_false | Show_review_dialog

text \<open>
  The component together with the globals it reads and writes: \<^verbatim>\<open>frappe.boot.points\<close>,
  \<^verbatim>\<open>frappe.session.user\<close>, \<^verbatim>\<open>this.frm\<close>, \<^verbatim>\<open>this.points\<close>, the children of
  \<^verbatim>\<open>this.reviews\<close>, the click handlers and the hover popover of the add-review button,
  and the effects so far.
\<close>

record review =
  boot_points :: points_t
  session_user :: string
  frm :: form
  points :: points_t
  reviews :: "pill list"
  btn_handlers :: "handler list"
  btn_popover :: "string option"
  effects :: "effect list"

section \<open>The involvement resolver\<close>

definition get_involved_users :: "review \<Rightarrow> jsval list" where
  "get_involved_users s =
     (let user_fields =
            map fieldname
              (filter (\<lambda>d. fieldtype d = ''Link'' \<and> options d = JStr ''User'')
                 (meta_fields (frm s)))
            @ [''owner''];
          involved_users = map (\<lambda>field. doc_get (doc (frm s)) field) user_fields;
          docinfo = get_docinfo (frm s);
          involved_users = involved_users
            @ map (\<lambda>d. js_and (sender d) (JBool (delivery_status d = JStr ''sent'')))
                (communications docinfo)
            @ map owner (comments docinfo)
            @ map owner (versions docinfo)
            @ map owner (assignments docinfo)
      in filter Boolean
           (filter (\<lambda>user. user \<notin> set [JStr ''Administrator'', JStr (session_user s)])
              (uniqBy (\<lambda>u. u) involved_users)))"

section \<open>The review list\<close>

text \<open>
  \<^verbatim>\<open>setup_detail_popover(el, data)\<close> chooses the singular or plural subject and attaches
  the popover to \<^verbatim>\<open>el\<close>.
\<close>

definition setup_detail_popover :: "pill \<Rightarrow> energy_point_log \<Rightarrow> pill" where
  "setup_detail_popover el data =
     (let message_parts = (\<bar>log_points data\<bar>, log_user data, log_creation data);
          subject =
            (if log_type data = ''Appreciation'' then
               (if log_points data = 1 then ''{0} appreciation point for {1}''
                else ''{0} appreciation points for {1}'')
             else
               (if log_points data = - 1 then ''{0} criticism point for {1}''
                else ''{0} criticism points for {1}''))
      in el\<lparr>popover := Some \<lparr>subject = subject, message_parts = message_parts,
                               by_owner = log_owner data, body = log_reason data\<rparr>\<rparr>)"

text \<open>The element built from the template literal in \<^verbatim>\<open>update_reviewers\<close>.\<close>

definition review_pill :: "energy_point_log \<Rightarrow> pill" where
  "review_pill log =
     \<lparr>li_class = [''review'', if log_points log < 0 then ''criticism'' else ''appreciation''],
      li_text = \<bar>log_points log\<bar>,
      popover = None\<rparr>"

text \<open>\<^verbatim>\<open>this.reviews.empty()\<close> and \<^verbatim>\<open>this.reviews.append(el)\<close>.\<close>

definition reviews_empty :: "review \<Rightarrow> review" where
  "reviews_empty s = s\<lparr>reviews := [], effects := effects s @ [Reviews_empty]\<rparr>"

definition reviews_append :: "pill \<Rightarrow> review \<Rightarrow> review" where
  "reviews_append el s = s\<lparr>reviews := reviews s @ [el], effects := effects s @ [Reviews_append el]\<rparr>"

text \<open>
  The body of the \<^verbatim>\<open>forEach\<close>: the pill is appended, then the popover is attached to that
  same element, which is now the last child of the list.
\<close>

definition update_reviewers_body :: "review \<Rightarrow> energy_point_log \<Rightarrow> review" where
  "update_reviewers_body s log =
     (let s = reviews_append (review_pill log) s
      in s\<lparr>reviews := butlast (reviews s) @ [setup_detail_popover (last (reviews s)) log]\<rparr>)"

definition update_reviewers :: "review \<Rightarrow> review" where
  "update_reviewers s =
     (let review_logs =
            filter (\<lambda>log. log_type log \<in> set [''Appreciation'', ''Criticism''])
              (energy_point_logs (get_docinfo (frm s)));
          s = reviews_empty s
      in foldl update_reviewers_body s review_logs)"

section \<open>The points balance\<close>

text \<open>A number or \<^verbatim>\<open>undefined\<close> as a JavaScript value.\<close>

fun js_num :: "int option \<Rightarrow> jsval" where
  "js_num None = JUndefined"
| "js_num (Some n) = JNum n"

text \<open>
  \<^verbatim>\<open>update_points()\<close> issues the remote call; \<^verbatim>\<open>update_points_then data\<close> is its
  \<^verbatim>\<open>then\<close> handler, run when the call resolves with \<^verbatim>\<open>data\<close>.
\<close>

definition update_points :: "review \<Rightarrow> review" where
  "update_points s = s\<lparr>effects := effects s @ [XCall_get_energy_points (session_user s)]\<rparr>"

definition update_points_then :: "points_t \<Rightarrow> review \<Rightarrow> review" where
  "update_points_then data s = s\<lparr>boot_points := data, points := data\<rparr>"

section \<open>The review dialog\<close>

text \<open>
  The dialog \<^verbatim>\<open>show_review_dialog\<close> builds: the options of its \<^verbatim>\<open>to_user\<close> field, the
  balance interpolated into the description of its \<^verbatim>\<open>points\<close> field, whether it is shown
  and whether its primary action (the Submit button) is enabled.
\<close>

record dialog =
  to_user_options :: "jsval list"
  points_description :: "int option"
  shown :: bool
  primary_action_enabled :: bool

text \<open>
  Modelled from the spec: the methods of \<^verbatim>\<open>frappe.ui.Dialog\<close> are defined elsewhere in
  the repository. The spec speaks of the submission control being disabled and re-enabled
  and of the submission UI being open; each method sets the flag its name says and is
  recorded as an effect.
\<close>

definition dialog_show :: "dialog \<times> review \<Rightarrow> dialog \<times> review" where
  "dialog_show ds =
     (case ds of (d, s) \<Rightarrow> (d\<lparr>shown := True\<rparr>, s\<lparr>effects := effects s @ [Dialog_show]\<rparr>))"

definition dialog_hide :: "dialog \<times> review \<Rightarrow> dialog \<times> review" where
  "dialog_hide ds =
     (case ds of (d, s) \<Rightarrow> (d\<lparr>shown := False\<rparr>, s\<lparr>effects := effects s @ [Dialog_hide]\<rparr>))"

definition dialog_clear :: "dialog \<times> review \<Rightarrow> dialog \<times> review" where
  "dialog_clear ds =
     (case ds of (d, s) \<Rightarrow> (d, s\<lparr>effects := effects s @ [Dialog_clear]\<rparr>))"

definition disable_primary_action :: "dialog \<times> review \<Rightarrow> dialog \<times> review" where
  "disable_primary_action ds =
     (case ds of (d, s) \<Rightarrow>
        (d\<lparr>primary_action_enabled := False\<rparr>,
         s\<lparr>effects := effects s @ [Dialog_disable_primary_action]\<rparr>))"

definition enable_primary_action :: "dialog \<times> review \<Rightarrow> dialog \<times> review" where
  "enable_primary_action ds =
     (case ds of (d, s) \<Rightarrow>
        (d\<lparr>primary_action_enabled := True\<rparr>,
         s\<lparr>effects := effects s @ [Dialog_enable_primary_action]\<rparr>))"

text \<open>
  \<^verbatim>\<open>frappe.msgprint\<close>, \<^verbatim>\<open>frm.timeline.refresh()\<close> and \<^verbatim>\<open>energy_point_logs.unshift\<close>.
  Messages are passed through the translation function \<^verbatim>\<open>__\<close>; the model keeps the
  source string.
\<close>

definition msgprint :: "string \<Rightarrow> review \<Rightarrow> review" where
  "msgprint m s = s\<lparr>effects := effects s @ [Msgprint m]\<rparr>"

definition timeline_refresh :: "review \<Rightarrow> review" where
  "timeline_refresh s = s\<lparr>effects := effects s @ [Timeline_refresh]\<rparr>"

definition logs_unshift :: "energy_point_log \<Rightarrow> review \<Rightarrow> review" where
  "logs_unshift r s =
     s\<lparr>frm := (frm s)\<lparr>get_docinfo := (get_docinfo (frm s))
            \<lparr>energy_point_logs := r # energy_point_logs (get_docinfo (frm s))\<rparr>\<rparr>,
       effects := effects s @ [Logs_unshift r]\<rparr>"

text \<open>The \<^verbatim>\<open>values\<close> object the dialog passes to its primary action.\<close>

record review_values =
  to_user :: string
  review_type :: string
  values_points :: int
  reason :: string

definition show_review_dialog :: "review \<Rightarrow> dialog \<times> review" where
  "show_review_dialog s =
     (let user_options = get_involved_users s;
          review_dialog =
            \<lparr>to_user_options = user_options,
             points_description = review_points (points s),
             shown = False,
             primary_action_enabled = True\<rparr>
      in dialog_show (review_dialog, s))"

text \<open>
  The primary action up to the point where it returns: either after the message box, with
  no call pending (\<open>None\<close>), or after issuing the remote call, whose promise is pending
  (\<open>Some\<close> of its arguments).
\<close>

definition primary_action ::
  "review_values \<Rightarrow> dialog \<times> review \<Rightarrow> (dialog \<times> review) \<times> review_args option" where
  "primary_action vals ds =
     (let ds = disable_primary_action ds;
          d = fst ds;
          s = snd ds
      in if js_gt (values_points vals) (review_points (points s))
         then ((d, msgprint ''You do not have enough points'' s), None)
         else
           (let args =
                  \<lparr>arg_doctype = doc_get (doc (frm s)) ''doctype'',
                   arg_name = doc_get (doc (frm s)) ''name'',
                   arg_to_user = to_user vals,
                   arg_points = values_points vals,
                   arg_review_type = review_type vals,
                   arg_reason = reason vals\<rparr>
            in ((d, s\<lparr>effects := effects s @ [XCall_review args]\<rparr>), Some args)))"

text \<open>The \<^verbatim>\<open>then\<close> handler of the remote call, run with the review the ledger returned.\<close>

definition primary_action_then :: "energy_point_log \<Rightarrow> dialog \<times> review \<Rightarrow> dialog \<times> review" where
  "primary_action_then r ds =
     (let ds = dialog_hide ds;
          ds = dialog_clear ds;
          d = fst ds;
          s = snd ds;
          s = logs_unshift r s;
          s = timeline_refresh s;
          s = update_reviewers s;
          s = update_points s
      in (d, s))"

text \<open>The \<^verbatim>\<open>finally\<close> handler.\<close>

definition primary_action_finally :: "dialog \<times> review \<Rightarrow> dialog \<times> review" where
  "primary_action_finally ds = enable_primary_action ds"

text \<open>
  How the promise of the remote call settles. On \<open>Resolved\<close> the \<^verbatim>\<open>then\<close> handler runs
  and then the \<^verbatim>\<open>finally\<close> handler; on \<open>Rejected\<close> only the \<^verbatim>\<open>finally\<close> handler.
\<close>

datatype settled = Resolved energy_point_log | Rejected

definition primary_action_settle :: "settled \<Rightarrow> dialog \<times> review \<Rightarrow> dialog \<times> review" where
  "primary_action_settle r ds =
     primary_action_finally
       (case r of Resolved review \<Rightarrow> primary_action_then review ds | Rejected \<Rightarrow> ds)"

section \<open>The add-review button and the constructor\<close>

definition add_review_button :: "review \<Rightarrow> review" where
  "add_review_button s =
     (if \<not> Boolean (js_num (review_points (points s)))
      then s\<lparr>btn_handlers := btn_handlers s @ [Return_false],
             btn_popover := Some ''You do not have enough review points''\<rparr>
      else s\<lparr>btn_handlers := btn_handlers s @ [Show_review_dialog]\<rparr>)"

text \<open>
  What the constructor finds in \<^verbatim>\<open>parent\<close>: the children of its \<^verbatim>\<open>.reviews\<close> element and
  the handlers and popover already bound to its \<^verbatim>\<open>.add-review-btn\<close> element.
\<close>

record parent_el =
  parent_reviews :: "pill list"
  parent_btn_handlers :: "handler list"
  parent_btn_popover :: "string option"

text \<open>
  The constructor, given the globals \<^verbatim>\<open>frappe.boot.points\<close> and \<^verbatim>\<open>frappe.session.user\<close>
  and its arguments \<^verbatim>\<open>parent\<close> and \<^verbatim>\<open>frm\<close>.
\<close>

definition constructor :: "points_t \<Rightarrow> string \<Rightarrow> parent_el \<Rightarrow> form \<Rightarrow> review" where
  "constructor boot user parent f =
     (let this =
            \<lparr>boot_points = boot,
             session_user = user,
             frm = f,
             points = boot,
             reviews = parent_reviews parent,
             btn_handlers = parent_btn_handlers parent,
             btn_popover = parent_btn_popover parent,
             effects = []\<rparr>;
          this = add_review_button this
      in update_reviewers this)"

text \<open>
  A click on the add-review button runs its handlers in the order they were bound and
  collects the dialogs they open. The handler \<^verbatim>\<open>false\<close> does nothing.
\<close>

fun run_handler :: "handler \<Rightarrow> dialog list \<times> review \<Rightarrow> dialog list \<times> review" where
  "run_handler Return_false (ds, s) = (ds, s)"
| "run_handler Show_review_dialog (ds, s) =
     (case show_review_dialog s of (d, s') \<Rightarrow> (ds @ [d], s'))"

definition review_button_click :: "review \<Rightarrow> dialog list \<times> review" where
  "review_button_click s = foldl (\<lambda>acc h. run_handler h acc) ([], s) (btn_handlers s)"

section \<open>Remote calls among the effects\<close>

fun is_xcall :: "effect \<Rightarrow> bool" where
  "is_xcall (XCall_review a) = True"
| "is_xcall (XCall_get_energy_points u) = True"
| "is_xcall e = False"

section \<open>Concrete inputs\<close>

text \<open>
  A task owned by alice whose user-link field names the acting user, with one sent
  communication, comments by the administrative account, alice and carol, a version by
  the acting user, an assignment without owner, and four energy point logs.
\<close>

definition demo_form :: form where
  "demo_form =
     \<lparr>meta_fields =
        [\<lparr>fieldtype = ''Link'', options = JStr ''User'', fieldname = ''lead''\<rparr>,
         \<lparr>fieldtype = ''Data'', options = JUndefined, fieldname = ''title''\<rparr>],
      doc = [''doctype'' \<mapsto> JStr ''Task'', ''name'' \<mapsto> JStr ''T1'',
             ''owner'' \<mapsto> JStr ''alice'', ''lead'' \<mapsto> JStr ''me'',
             ''title'' \<mapsto> JStr ''fix''],
      get_docinfo =
        \<lparr>communications = [\<lparr>sender = JStr ''bob'', delivery_status = JStr ''sent''\<rparr>],
         comments = [\<lparr>owner = JStr ''Administrator''\<rparr>, \<lparr>owner = JStr ''alice''\<rparr>,
                     \<lparr>owner = JStr ''carol''\<rparr>],
         versions = [\<lparr>owner = JStr ''me''\<rparr>],
         assignments = [\<lparr>owner = JStr []\<rparr>],
         energy_point_logs =
           [\<lparr>log_type = ''Appreciation'', log_points = 3, log_user = ''alice'',
             log_owner = ''carol'', log_creation = ''d1'', log_reason = ''r1''\<rparr>,
            \<lparr>log_type = ''Auto'', log_points = 7, log_user = ''alice'',
             log_owner = ''Administrator'', log_creation = ''d2'', log_reason = ''r2''\<rparr>,
            \<lparr>log_type = ''Criticism'', log_points = - 2, log_user = ''carol'',
             log_owner = ''alice'', log_creation = ''d3'', log_reason = ''r3''\<rparr>,
            \<lparr>log_type = ''Appreciation'', log_points = 0, log_user = ''carol'',
             log_owner = ''alice'', log_creation = ''d4'', log_reason = ''r4''\<rparr>]\<rparr>\<rparr>"

definition demo_parent :: parent_el where
  "demo_parent = \<lparr>parent_reviews = [], parent_btn_handlers = [], parent_btn_popover = None\<rparr>"

text \<open>The component constructed on that form by the user \<open>me\<close> with five review points.\<close>

definition demo_review :: review where
  "demo_review = constructor \<lparr>review_points = Some 5\<rparr> ''me'' demo_parent demo_form"

definition demo_values :: "string \<Rightarrow> int \<Rightarrow> review_values" where
  "demo_values u n =
     \<lparr>to_user = u, review_type = ''Appreciation'', values_points = n, reason = ''thanks''\<rparr>"

definition demo_log :: energy_point_log where
  "demo_log =
     \<lparr>log_type = ''Appreciation'', log_points = 2, log_user = ''alice'',
      log_owner = ''me'', log_creation = ''d5'', log_reason = ''thanks''\<rparr>"

text \<open>A document of the acting user whose only history entry is a sent communication from bob.\<close>

definition sent_only_form :: form where
  "sent_only_form =
     \<lparr>meta_fields = [],
      doc = [''doctype'' \<mapsto> JStr ''Task'', ''name'' \<mapsto> JStr ''T2'', ''owner'' \<mapsto> JStr ''me''],
      get_docinfo =
        \<lparr>communications = [\<lparr>sender = JStr ''bob'', delivery_status = JStr ''sent''\<rparr>],
         comments = [], versions = [], assignments = [], energy_point_logs = []\<rparr>\<rparr>"

section \<open>Deduplication\<close>

lemma uniqBy_seen_subset: "set (uniqBy_seen key seen xs) \<subseteq> set xs"
  by (induction xs arbitrary: seen) auto

lemma uniqBy_seen_fresh: "x \<in> set (uniqBy_seen key seen xs) \<Longrightarrow> key x \<notin> set seen"
proof (induction xs arbitrary: seen)
  case Nil
  then show ?case by simp
next
  case (Cons a xs)
  show ?case
  proof (cases "key a \<in> set seen")
    case True
    with Cons.prems have "x \<in> set (uniqBy_seen key seen xs)" by simp
    then show ?thesis by (rule Cons.IH)
  next
    case False
    with Cons.prems have "x = a \<or> x \<in> set (uniqBy_seen key (key a # seen) xs)" by simp
    then show ?thesis
    proof
      assume "x = a" with False show ?thesis by simp
    next
      assume "x \<in> set (uniqBy_seen key (key a # seen) xs)"
      then have "key x \<notin> set (key a # seen)" by (rule Cons.IH)
      then show ?thesis by simp
    qed
  qed
qed

lemma uniqBy_seen_distinct: "distinct (map key (uniqBy_seen key seen xs))"
proof (induction xs arbitrary: seen)
  case Nil
  show ?case by simp
next
  case (Cons a xs)
  have "key a \<notin> key ` set (uniqBy_seen key (key a # seen) xs)"
  proof
    assume "key a \<in> key ` set (uniqBy_seen key (key a # seen) xs)"
    then obtain y where y: "y \<in> set (uniqBy_seen key (key a # seen) xs)" and k: "key a = key y"
      by auto
    from y have "key y \<notin> set (key a # seen)" by (rule uniqBy_seen_fresh)
    with k show False by simp
  qed
  with Cons show ?case by simp
qed

lemma uniqBy_id_distinct: "distinct (uniqBy (\<lambda>u. u) xs)"
  using uniqBy_seen_distinct [of "\<lambda>u. u" "[]" xs] by (simp add: uniqBy_def)

lemma uniqBy_seen_complete:
  "x \<in> set xs \<Longrightarrow> key x \<notin> set seen \<Longrightarrow> key x \<in> key ` set (uniqBy_seen key seen xs)"
proof (induction xs arbitrary: seen)
  case Nil
  then show ?case by simp
next
  case (Cons a xs)
  show ?case
  proof (cases "key x = key a")
    case True
    with Cons.prems show ?thesis by simp
  next
    case False
    with Cons.prems have xs: "x \<in> set xs" by auto
    show ?thesis
    proof (cases "key a \<in> set seen")
      case True
      with Cons.IH [OF xs Cons.prems(2)] show ?thesis by simp
    next
      case a: False
      from False Cons.prems(2) have "key x \<notin> set (key a # seen)" by simp
      from Cons.IH [OF xs this] a show ?thesis by simp
    qed
  qed
qed

lemma set_uniqBy_id: "set (uniqBy (\<lambda>u. u) xs) = set xs"
proof
  show "set (uniqBy (\<lambda>u. u) xs) \<subseteq> set xs"
    by (simp add: uniqBy_def uniqBy_seen_subset)
  show "set xs \<subseteq> set (uniqBy (\<lambda>u. u) xs)"
  proof
    fix x assume "x \<in> set xs"
    then have "(\<lambda>u. u) x \<in> (\<lambda>u. u) ` set (uniqBy_seen (\<lambda>u. u) [] xs)"
      by (rule uniqBy_seen_complete) simp
    then show "x \<in> set (uniqBy (\<lambda>u. u) xs)" by (simp add: uniqBy_def)
  qed
qed

section \<open>The review list is rebuilt from the history\<close>

lemma update_reviewers_body_eq:
  "update_reviewers_body s log =
     s\<lparr>reviews := reviews s @ [setup_detail_popover (review_pill log) log],
       effects := effects s @ [Reviews_append (review_pill log)]\<rparr>"
  by (simp add: update_reviewers_body_def reviews_append_def Let_def)

lemma foldl_update_reviewers_body:
  "foldl update_reviewers_body s logs =
     s\<lparr>reviews := reviews s @ map (\<lambda>log. setup_detail_popover (review_pill log) log) logs,
       effects := effects s @ map (\<lambda>log. Reviews_append (review_pill log)) logs\<rparr>"
proof (induction logs arbitrary: s)
  case Nil
  show ?case by simp
next
  case (Cons log logs)
  have "foldl update_reviewers_body s (log # logs) =
          foldl update_reviewers_body (update_reviewers_body s log) logs"
    by simp
  also have "\<dots> = (update_reviewers_body s log)
      \<lparr>reviews := reviews (update_reviewers_body s log)
                   @ map (\<lambda>log. setup_detail_popover (review_pill log) log) logs,
       effects := effects (update_reviewers_body s log)
                   @ map (\<lambda>log. Reviews_append (review_pill log)) logs\<rparr>"
    by (rule Cons.IH)
  also have "\<dots> = s
      \<lparr>reviews := reviews s @ map (\<lambda>log. setup_detail_popover (review_pill log) log) (log # logs),
       effects := effects s @ map (\<lambda>log. Reviews_append (review_pill log)) (log # logs)\<rparr>"
    by (simp add: update_reviewers_body_eq)
  finally show ?case .
qed

lemma update_reviewers_eq:
  "update_reviewers s =
     s\<lparr>reviews := map (\<lambda>log. setup_detail_popover (review_pill log) log)
                    (filter (\<lambda>log. log_type log \<in> set [''Appreciation'', ''Criticism''])
                       (energy_point_logs (get_docinfo (frm s)))),
       effects := effects s @ Reviews_empty #
                    map (\<lambda>log. Reviews_append (review_pill log))
                      (filter (\<lambda>log. log_type log \<in> set [''Appreciation'', ''Criticism''])
                         (energy_point_logs (get_docinfo (frm s))))\<rparr>"
  unfolding update_reviewers_def Let_def foldl_update_reviewers_body
  by (simp add: reviews_empty_def)

section \<open>The concrete inputs evaluated\<close>

lemma demo_review_eq:
  "demo_review =
     \<lparr>boot_points = \<lparr>review_points = Some 5\<rparr>,
      session_user = ''me'',
      frm = demo_form,
      points = \<lparr>review_points = Some 5\<rparr>,
      reviews = map (\<lambda>log. setup_detail_popover (review_pill log) log)
                  (filter (\<lambda>log. log_type log \<in> set [''Appreciation'', ''Criticism''])
                     (energy_point_logs (get_docinfo demo_form))),
      btn_handlers = [Show_review_dialog],
      btn_popover = None,
      effects = Reviews_empty #
                  map (\<lambda>log. Reviews_append (review_pill log))
                    (filter (\<lambda>log. log_type log \<in> set [''Appreciation'', ''Criticism''])
                       (energy_point_logs (get_docinfo demo_form)))\<rparr>"
  by (simp add: demo_review_def constructor_def update_reviewers_eq add_review_button_def
      demo_parent_def Let_def)

lemma demo_involved_users:
  "get_involved_users demo_review = [JStr ''alice'', JBool True, JStr ''carol'']"
  by (simp add: demo_review_eq get_involved_users_def demo_form_def doc_get_def js_and_def
      uniqBy_def Let_def)

section \<open>Eligibility of the resolver's output\<close>

text \<open>
  C2. For every state of the document and its history feeds, the list
  \<^verbatim>\<open>get_involved_users\<close> returns does not contain the current acting user, does not contain
  \<^verbatim>\<open>'Administrator'\<close>, has no duplicates and has no falsy entry.
\<close>

theorem get_involved_users_eligible:
  "JStr (session_user s) \<notin> set (get_involved_users s) \<and>
   JStr ''Administrator'' \<notin> set (get_involved_users s) \<and>
   distinct (get_involved_users s) \<and>
   (\<forall>u \<in> set (get_involved_users s). Boolean u)"
  by (simp add: get_involved_users_def Let_def uniqBy_id_distinct)

theorem get_involved_users_eligible_witness:
  "JStr (session_user demo_review) \<notin> set (get_involved_users demo_review) \<and>
   JStr ''Administrator'' \<notin> set (get_involved_users demo_review) \<and>
   distinct (get_involved_users demo_review) \<and>
   list_all Boolean (get_involved_users demo_review) \<and>
   get_involved_users demo_review = [JStr ''alice'', JBool True, JStr ''carol'']"
  using get_involved_users_eligible [of demo_review] demo_involved_users
  by (simp add: list_all_iff)

section \<open>Senders of sent communications\<close>

text \<open>
  C3 (evaluation at the failing input). On a document of the acting user whose only
  history entry is a communication sent by bob, \<^verbatim>\<open>get_involved_users\<close> returns the boolean
  \<^verbatim>\<open>true\<close> that the mapping \<^verbatim>\<open>d.sender && d.delivery_status==='sent'\<close> produced; the
  sender bob is not in the result.
\<close>

theorem get_involved_users_drops_sender:
  "get_involved_users
     (constructor \<lparr>review_points = Some 5\<rparr> ''me'' demo_parent sent_only_form) = [JBool True] \<and>
   JStr ''bob'' \<notin> set (get_involved_users
     (constructor \<lparr>review_points = Some 5\<rparr> ''me'' demo_parent sent_only_form))"
  by (simp add: constructor_def update_reviewers_eq add_review_button_def demo_parent_def
      get_involved_users_def sent_only_form_def doc_get_def js_and_def uniqBy_def Let_def)

section \<open>The budget check of the primary action\<close>

lemma primary_action_rejects:
  "js_gt (values_points vals) (review_points (points s)) \<Longrightarrow>
   primary_action vals (d, s) =
     ((d\<lparr>primary_action_enabled := False\<rparr>,
       s\<lparr>effects := effects s @
            [Dialog_disable_primary_action, Msgprint ''You do not have enough points'']\<rparr>),
      None)"
  by (simp add: primary_action_def disable_primary_action_def msgprint_def Let_def)

lemma primary_action_calls:
  "\<not> js_gt (values_points vals) (review_points (points s)) \<Longrightarrow>
   primary_action vals (d, s) =
     ((d\<lparr>primary_action_enabled := False\<rparr>,
       s\<lparr>effects := effects s @
            [Dialog_disable_primary_action,
             XCall_review
               \<lparr>arg_doctype = doc_get (doc (frm s)) ''doctype'',
                arg_name = doc_get (doc (frm s)) ''name'',
                arg_to_user = to_user vals,
                arg_points = values_points vals,
                arg_review_type = review_type vals,
                arg_reason = reason vals\<rparr>]\<rparr>),
      Some \<lparr>arg_doctype = doc_get (doc (frm s)) ''doctype'',
            arg_name = doc_get (doc (frm s)) ''name'',
            arg_to_user = to_user vals,
            arg_points = values_points vals,
            arg_review_type = review_type vals,
            arg_reason = reason vals\<rparr>)"
  by (simp add: primary_action_def disable_primary_action_def Let_def)

text \<open>
  C1. When the requested points exceed the cached balance, the primary action shows the
  message \<^verbatim>\<open>'You do not have enough points'\<close> and returns with no remote call pending and
  none issued; the form with its energy point logs, \<^verbatim>\<open>this.points\<close>,
  \<^verbatim>\<open>frappe.boot.points\<close> and the review list keep their values.
\<close>

theorem primary_action_insufficient_points:
  assumes "review_points (points s) = Some balance" and "values_points vals > balance"
  shows "snd (primary_action vals (d, s)) = None \<and>
         effects (snd (fst (primary_action vals (d, s)))) =
           effects s @ [Dialog_disable_primary_action, Msgprint ''You do not have enough points''] \<and>
         filter is_xcall (effects (snd (fst (primary_action vals (d, s))))) =
           filter is_xcall (effects s) \<and>
         frm (snd (fst (primary_action vals (d, s)))) = frm s \<and>
         points (snd (fst (primary_action vals (d, s)))) = points s \<and>
         boot_points (snd (fst (primary_action vals (d, s)))) = boot_points s \<and>
         reviews (snd (fst (primary_action vals (d, s)))) = reviews s"
proof -
  from assms have "js_gt (values_points vals) (review_points (points s))" by simp
  then show ?thesis by (simp add: primary_action_rejects)
qed

theorem primary_action_insufficient_points_witness:
  "snd (primary_action (demo_values ''alice'' 6) (show_review_dialog demo_review)) = None \<and>
   effects (snd (fst (primary_action (demo_values ''alice'' 6) (show_review_dialog demo_review)))) =
     effects demo_review @
       [Dialog_show, Dialog_disable_primary_action, Msgprint ''You do not have enough points''] \<and>
   energy_point_logs (get_docinfo (frm (snd (fst
       (primary_action (demo_values ''alice'' 6) (show_review_dialog demo_review)))))) =
     energy_point_logs (get_docinfo demo_form) \<and>
   review_points (points (snd (fst
       (primary_action (demo_values ''alice'' 6) (show_review_dialog demo_review))))) = Some 5"
proof -
  obtain d s where ds: "show_review_dialog demo_review = (d, s)"
    by (cases "show_review_dialog demo_review")
  then have s: "s = demo_review\<lparr>effects := effects demo_review @ [Dialog_show]\<rparr>"
    by (auto simp: show_review_dialog_def dialog_show_def Let_def)
  have p: "review_points (points s) = Some 5" and f: "frm s = demo_form"
    by (simp_all add: s demo_review_eq)
  have v: "values_points (demo_values ''alice'' 6) > 5"
    by (simp add: demo_values_def)
  from primary_action_insufficient_points [OF p v, of d] show ?thesis
    by (simp add: ds p f) (simp add: s)
qed

text \<open>
  C4 (as the code has it). The only check the primary action makes before the remote call
  is the comparison of the requested points with the cached balance: the call is issued
  exactly when \<^verbatim>\<open>values.points > this.points.review_points\<close> is false, with the recipient
  and the points passed on as given, whoever the recipient is and whatever the sign of
  the points.
\<close>

theorem primary_action_checks_balance_only:
  "(snd (primary_action vals (d, s)) =
      (if js_gt (values_points vals) (review_points (points s)) then None
       else Some \<lparr>arg_doctype = doc_get (doc (frm s)) ''doctype'',
                  arg_name = doc_get (doc (frm s)) ''name'',
                  arg_to_user = to_user vals,
                  arg_points = values_points vals,
                  arg_review_type = review_type vals,
                  arg_reason = reason vals\<rparr>)) \<and>
   (filter is_xcall (effects (snd (fst (primary_action vals (d, s))))) =
      filter is_xcall (effects s) @
        (if js_gt (values_points vals) (review_points (points s)) then []
         else [XCall_review
                 \<lparr>arg_doctype = doc_get (doc (frm s)) ''doctype'',
                  arg_name = doc_get (doc (frm s)) ''name'',
                  arg_to_user = to_user vals,
                  arg_points = values_points vals,
                  arg_review_type = review_type vals,
                  arg_reason = reason vals\<rparr>]))"
  by (cases "js_gt (values_points vals) (review_points (points s))")
     (simp_all add: primary_action_rejects primary_action_calls)

text \<open>
  C4 (counterexample). In the dialog opened on the demo document, a request for minus three
  points to mallory, who is not among the dialog's recipient options, is sent to the
  remote ledger.
\<close>

theorem primary_action_unchecked_recipient_and_points:
  "JStr (to_user (demo_values ''mallory'' (- 3))) \<notin>
     set (to_user_options (fst (show_review_dialog demo_review))) \<and>
   \<not> 0 < values_points (demo_values ''mallory'' (- 3)) \<and>
   snd (primary_action (demo_values ''mallory'' (- 3)) (show_review_dialog demo_review)) =
     Some \<lparr>arg_doctype = JStr ''Task'', arg_name = JStr ''T1'', arg_to_user = ''mallory'',
           arg_points = - 3, arg_review_type = ''Appreciation'', arg_reason = ''thanks''\<rparr>"
proof -
  obtain d s where ds: "show_review_dialog demo_review = (d, s)"
    by (cases "show_review_dialog demo_review")
  then have s: "s = demo_review\<lparr>effects := effects demo_review @ [Dialog_show]\<rparr>"
    and d: "to_user_options d = get_involved_users demo_review"
    by (auto simp: show_review_dialog_def dialog_show_def Let_def)
  have p: "\<not> js_gt (values_points (demo_values ''mallory'' (- 3))) (review_points (points s))"
    by (simp add: s demo_review_eq demo_values_def)
  have f: "doc (frm s) ''doctype'' = Some (JStr ''Task'')" "doc (frm s) ''name'' = Some (JStr ''T1'')"
    by (simp_all add: s demo_review_eq demo_form_def)
  show ?thesis
    by (simp add: ds d demo_involved_users primary_action_calls [OF p] doc_get_def f)
       (simp add: demo_values_def)
qed

text \<open>
  C7 (evaluation at the failing input). With five review points cached, a request for six
  points returns after the message box with the primary action still disabled and no
  remote call pending whose settling would enable it again.
\<close>

theorem primary_action_insufficient_leaves_disabled:
  "primary_action_enabled (fst (show_review_dialog demo_review)) \<and>
   \<not> primary_action_enabled
       (fst (fst (primary_action (demo_values ''alice'' 6) (show_review_dialog demo_review)))) \<and>
   snd (primary_action (demo_values ''alice'' 6) (show_review_dialog demo_review)) = None \<and>
   Dialog_enable_primary_action \<notin> set (effects (snd (fst
       (primary_action (demo_values ''alice'' 6) (show_review_dialog demo_review)))))"
proof -
  obtain d s where ds: "show_review_dialog demo_review = (d, s)"
    by (cases "show_review_dialog demo_review")
  then have s: "s = demo_review\<lparr>effects := effects demo_review @ [Dialog_show]\<rparr>"
    and d: "primary_action_enabled d"
    by (auto simp: show_review_dialog_def dialog_show_def Let_def)
  have p: "js_gt (values_points (demo_values ''alice'' 6)) (review_points (points s))"
    by (simp add: s demo_review_eq demo_values_def)
  show ?thesis
    by (simp add: ds d primary_action_rejects [OF p]) (auto simp: s demo_review_eq)
qed

section \<open>After the remote call settles\<close>

lemma primary_action_then_eq:
  "primary_action_then r (d, s) =
     (d\<lparr>shown := False\<rparr>,
      s\<lparr>frm := (frm s)\<lparr>get_docinfo := (get_docinfo (frm s))
             \<lparr>energy_point_logs := r # energy_point_logs (get_docinfo (frm s))\<rparr>\<rparr>,
        reviews := map (\<lambda>log. setup_detail_popover (review_pill log) log)
                     (filter (\<lambda>log. log_type log \<in> set [''Appreciation'', ''Criticism''])
                        (r # energy_point_logs (get_docinfo (frm s)))),
        effects := effects s @
          [Dialog_hide, Dialog_clear, Logs_unshift r, Timeline_refresh, Reviews_empty] @
          map (\<lambda>log. Reviews_append (review_pill log))
            (filter (\<lambda>log. log_type log \<in> set [''Appreciation'', ''Criticism''])
               (r # energy_point_logs (get_docinfo (frm s)))) @
          [XCall_get_energy_points (session_user s)]\<rparr>)"
  by (simp add: primary_action_then_def dialog_hide_def dialog_clear_def logs_unshift_def
      timeline_refresh_def update_reviewers_eq update_points_def Let_def)

text \<open>
  C5. When the remote call resolves with the review \<open>r\<close>, the energy point logs become
  \<open>r\<close> followed by the former logs, one entry longer; the effects run in the order: hide
  and clear the dialog, unshift the review, refresh the timeline, empty the review list
  and append one pill for every log of the new history whose type is Appreciation or
  Criticism, request the points balance, enable the primary action; and the review list
  shows exactly those pills.
\<close>

theorem primary_action_resolved_prepends:
  "energy_point_logs (get_docinfo (frm (snd (primary_action_settle (Resolved r) (d, s))))) =
     r # energy_point_logs (get_docinfo (frm s)) \<and>
   length (energy_point_logs (get_docinfo (frm (snd (primary_action_settle (Resolved r) (d, s)))))) =
     Suc (length (energy_point_logs (get_docinfo (frm s)))) \<and>
   effects (snd (primary_action_settle (Resolved r) (d, s))) =
     effects s @
       [Dialog_hide, Dialog_clear, Logs_unshift r, Timeline_refresh, Reviews_empty] @
       map (\<lambda>log. Reviews_append (review_pill log))
         (filter (\<lambda>log. log_type log \<in> set [''Appreciation'', ''Criticism''])
            (r # energy_point_logs (get_docinfo (frm s)))) @
       [XCall_get_energy_points (session_user s), Dialog_enable_primary_action] \<and>
   reviews (snd (primary_action_settle (Resolved r) (d, s))) =
     map (\<lambda>log. setup_detail_popover (review_pill log) log)
       (filter (\<lambda>log. log_type log \<in> set [''Appreciation'', ''Criticism''])
          (r # energy_point_logs (get_docinfo (frm s))))"
  by (simp add: primary_action_settle_def primary_action_finally_def enable_primary_action_def
      primary_action_then_eq)

theorem primary_action_resolved_prepends_witness:
  "energy_point_logs (get_docinfo (frm (snd (primary_action_settle (Resolved demo_log)
       (fst (primary_action (demo_values ''alice'' 2) (show_review_dialog demo_review))))))) =
     demo_log # energy_point_logs (get_docinfo demo_form) \<and>
   map li_text (reviews (snd (primary_action_settle (Resolved demo_log)
       (fst (primary_action (demo_values ''alice'' 2) (show_review_dialog demo_review)))))) =
     [2, 3, 2, 0] \<and>
   filter is_xcall (effects (snd (primary_action_settle (Resolved demo_log)
       (fst (primary_action (demo_values ''alice'' 2) (show_review_dialog demo_review)))))) =
     [XCall_review
        \<lparr>arg_doctype = JStr ''Task'', arg_name = JStr ''T1'', arg_to_user = ''alice'',
         arg_points = 2, arg_review_type = ''Appreciation'', arg_reason = ''thanks''\<rparr>,
      XCall_get_energy_points ''me'']"
proof -
  obtain d s where ds: "show_review_dialog demo_review = (d, s)"
    by (cases "show_review_dialog demo_review")
  then have s: "s = demo_review\<lparr>effects := effects demo_review @ [Dialog_show]\<rparr>"
    by (auto simp: show_review_dialog_def dialog_show_def Let_def)
  have p: "\<not> js_gt (values_points (demo_values ''alice'' 2)) (review_points (points s))"
    by (simp add: s demo_review_eq demo_values_def)
  have f: "doc_get (doc (frm s)) ''doctype'' = JStr ''Task''"
    "doc_get (doc (frm s)) ''name'' = JStr ''T1''"
    by (simp_all add: s demo_review_eq demo_form_def doc_get_def)
  define s' where "s' = s\<lparr>effects := effects s @
      [Dialog_disable_primary_action,
       XCall_review
         \<lparr>arg_doctype = JStr ''Task'', arg_name = JStr ''T1'', arg_to_user = ''alice'',
          arg_points = 2, arg_review_type = ''Appreciation'', arg_reason = ''thanks''\<rparr>]\<rparr>"
  have a: "fst (primary_action (demo_values ''alice'' 2) (d, s)) =
      (d\<lparr>primary_action_enabled := False\<rparr>, s')"
    by (simp add: primary_action_calls [OF p] f s'_def) (simp add: demo_values_def)
  have l: "energy_point_logs (get_docinfo (frm s')) = energy_point_logs (get_docinfo demo_form)"
    and u: "session_user s' = ''me''"
    and e: "filter is_xcall (effects s') =
      [XCall_review
         \<lparr>arg_doctype = JStr ''Task'', arg_name = JStr ''T1'', arg_to_user = ''alice'',
          arg_points = 2, arg_review_type = ''Appreciation'', arg_reason = ''thanks''\<rparr>]"
    by (simp_all add: s'_def s demo_review_eq comp_def)
  have x: "filter is_xcall (map (\<lambda>log. Reviews_append (review_pill log)) logs) = []" for logs
    by (induction logs) simp_all
  from primary_action_resolved_prepends [of demo_log "d\<lparr>primary_action_enabled := False\<rparr>" s']
  show ?thesis
    by (simp add: ds a l u e x)
       (simp add: demo_form_def demo_log_def setup_detail_popover_def review_pill_def Let_def)
qed

text \<open>
  C6. Whenever the primary action has issued the remote call, the settling of that call,
  resolved or rejected, ends with the primary action of the dialog enabled: enabling it is
  the last effect.
\<close>

theorem primary_action_settle_enables:
  assumes "snd (primary_action vals (d, s)) = Some args"
  shows "primary_action_enabled (fst (primary_action_settle r (fst (primary_action vals (d, s))))) \<and>
         last (effects (snd (primary_action_settle r (fst (primary_action vals (d, s)))))) =
           Dialog_enable_primary_action"
proof -
  obtain d' s' where ds: "fst (primary_action vals (d, s)) = (d', s')"
    by (cases "fst (primary_action vals (d, s))")
  show ?thesis
  proof (cases r)
    case (Resolved review)
    then show ?thesis
      by (simp add: ds primary_action_settle_def primary_action_finally_def
          enable_primary_action_def primary_action_then_eq)
  next
    case Rejected
    then show ?thesis
      by (simp add: ds primary_action_settle_def primary_action_finally_def
          enable_primary_action_def)
  qed
qed

theorem primary_action_settle_enables_witness:
  "snd (primary_action (demo_values ''alice'' 2) (show_review_dialog demo_review)) =
     Some \<lparr>arg_doctype = JStr ''Task'', arg_name = JStr ''T1'', arg_to_user = ''alice'',
           arg_points = 2, arg_review_type = ''Appreciation'', arg_reason = ''thanks''\<rparr> \<and>
   \<not> primary_action_enabled
       (fst (fst (primary_action (demo_values ''alice'' 2) (show_review_dialog demo_review)))) \<and>
   primary_action_enabled (fst (primary_action_settle (Resolved demo_log)
       (fst (primary_action (demo_values ''alice'' 2) (show_review_dialog demo_review))))) \<and>
   primary_action_enabled (fst (primary_action_settle Rejected
       (fst (primary_action (demo_values ''alice'' 2) (show_review_dialog demo_review)))))"
proof -
  obtain d s where ds: "show_review_dialog demo_review = (d, s)"
    by (cases "show_review_dialog demo_review")
  then have s: "s = demo_review\<lparr>effects := effects demo_review @ [Dialog_show]\<rparr>"
    by (auto simp: show_review_dialog_def dialog_show_def Let_def)
  have p: "\<not> js_gt (values_points (demo_values ''alice'' 2)) (review_points (points s))"
    by (simp add: s demo_review_eq demo_values_def)
  have f: "doc (frm s) ''doctype'' = Some (JStr ''Task'')" "doc (frm s) ''name'' = Some (JStr ''T1'')"
    by (simp_all add: s demo_review_eq demo_form_def)
  have a: "snd (primary_action (demo_values ''alice'' 2) (d, s)) =
     Some \<lparr>arg_doctype = JStr ''Task'', arg_name = JStr ''T1'', arg_to_user = ''alice'',
           arg_points = 2, arg_review_type = ''Appreciation'', arg_reason = ''thanks''\<rparr>"
    by (simp add: primary_action_calls [OF p] doc_get_def f) (simp add: demo_values_def)
  have e: "\<not> primary_action_enabled (fst (fst (primary_action (demo_values ''alice'' 2) (d, s))))"
    by (simp add: primary_action_calls [OF p])
  from primary_action_settle_enables [OF a, of "Resolved demo_log"]
       primary_action_settle_enables [OF a, of Rejected] a e
  show ?thesis by (simp add: ds)
qed

section \<open>The pills\<close>

text \<open>
  C8. The pills \<^verbatim>\<open>update_reviewers\<close> renders show, in order, the absolute value of the
  points of each log of type Appreciation or Criticism, and carry the class
  \<^verbatim>\<open>criticism\<close> when the points are below zero and \<^verbatim>\<open>appreciation\<close> otherwise, so also
  for zero points.
\<close>

theorem update_reviewers_pill_text_and_class:
  "map li_text (reviews (update_reviewers s)) =
     map (\<lambda>log. \<bar>log_points log\<bar>)
       (filter (\<lambda>log. log_type log \<in> set [''Appreciation'', ''Criticism''])
          (energy_point_logs (get_docinfo (frm s)))) \<and>
   map li_class (reviews (update_reviewers s)) =
     map (\<lambda>log. [''review'', if log_points log < 0 then ''criticism'' else ''appreciation''])
       (filter (\<lambda>log. log_type log \<in> set [''Appreciation'', ''Criticism''])
          (energy_point_logs (get_docinfo (frm s))))"
  by (simp add: update_reviewers_eq setup_detail_popover_def review_pill_def Let_def comp_def)

theorem update_reviewers_pill_text_and_class_witness:
  "map li_text (reviews (update_reviewers demo_review)) = [3, 2, 0] \<and>
   map li_class (reviews (update_reviewers demo_review)) =
     [[''review'', ''appreciation''], [''review'', ''criticism''], [''review'', ''appreciation'']]"
  using update_reviewers_pill_text_and_class [of demo_review]
  by (simp add: demo_review_eq demo_form_def)

text \<open>
  C9. \<^verbatim>\<open>update_reviewers\<close> leaves the form untouched and replaces the review list, whatever
  it held, by one pill for every log of type Appreciation or Criticism, in the order of
  the history; running it a second time gives the same list.
\<close>

theorem update_reviewers_idempotent:
  "reviews (update_reviewers (update_reviewers s)) = reviews (update_reviewers s) \<and>
   reviews (update_reviewers s) =
     map (\<lambda>log. setup_detail_popover (review_pill log) log)
       (filter (\<lambda>log. log_type log \<in> set [''Appreciation'', ''Criticism''])
          (energy_point_logs (get_docinfo (frm s)))) \<and>
   frm (update_reviewers s) = frm s"
  by (simp add: update_reviewers_eq)

theorem update_reviewers_idempotent_witness:
  "reviews (update_reviewers (update_reviewers demo_review)) = reviews demo_review \<and>
   length (reviews (update_reviewers (update_reviewers demo_review))) = 3 \<and>
   length (energy_point_logs (get_docinfo (frm demo_review))) = 4"
  using update_reviewers_idempotent [of demo_review]
  by (simp add: demo_review_eq) (simp add: demo_form_def)

section \<open>The add-review button without review points\<close>

lemma foldl_update_points_then_button:
  "btn_handlers (foldl (\<lambda>s data. update_points_then data s) s refreshes) = btn_handlers s \<and>
   btn_popover (foldl (\<lambda>s data. update_points_then data s) s refreshes) = btn_popover s"
  by (induction refreshes arbitrary: s) (simp_all add: update_points_then_def)

lemma foldl_run_handler_no_dialog:
  "Show_review_dialog \<notin> set hs \<Longrightarrow> foldl (\<lambda>acc h. run_handler h acc) (ds, s) hs = (ds, s)"
proof (induction hs)
  case Nil
  show ?case by simp
next
  case (Cons h hs)
  then have "h = Return_false" by (cases h) simp_all
  with Cons show ?case by simp
qed

text \<open>
  C10. If \<^verbatim>\<open>review_points\<close> is falsy when the component is constructed (and the button
  had no dialog-opening handler before), the constructor binds the handler \<^verbatim>\<open>false\<close> and
  the popover \<^verbatim>\<open>'You do not have enough review points'\<close>; after any number of later
  balance refreshes, with whatever balances, the handlers and the popover are still
  those, and a click opens no dialog and changes nothing.
\<close>

theorem add_review_button_gated_at_construction:
  assumes "\<not> Boolean (js_num (review_points boot))"
    and "Show_review_dialog \<notin> set (parent_btn_handlers parent)"
    and "s = foldl (\<lambda>s data. update_points_then data s) (constructor boot user parent f) refreshes"
  shows "btn_handlers s = parent_btn_handlers parent @ [Return_false] \<and>
         btn_popover s = Some ''You do not have enough review points'' \<and>
         review_button_click s = ([], s)"
proof -
  have c: "btn_handlers (constructor boot user parent f) = parent_btn_handlers parent @ [Return_false]"
    "btn_popover (constructor boot user parent f) = Some ''You do not have enough review points''"
    using assms(1)
    by (simp_all add: constructor_def update_reviewers_eq add_review_button_def Let_def)
  have h: "btn_handlers s = parent_btn_handlers parent @ [Return_false]"
    and p: "btn_popover s = Some ''You do not have enough review points''"
    by (simp_all add: assms(3) foldl_update_points_then_button c)
  from assms(2) have "Show_review_dialog \<notin> set (btn_handlers s)" by (simp add: h)
  then have "review_button_click s = ([], s)"
    unfolding review_button_click_def by (rule foldl_run_handler_no_dialog)
  with h p show ?thesis by simp
qed

theorem add_review_button_gated_at_construction_witness:
  "\<not> Boolean (js_num (review_points \<lparr>review_points = Some 0\<rparr>)) \<and>
   Show_review_dialog \<notin> set (parent_btn_handlers demo_parent) \<and>
   review_points (points (foldl (\<lambda>s data. update_points_then data s)
       (constructor \<lparr>review_points = Some 0\<rparr> ''me'' demo_parent demo_form)
       [\<lparr>review_points = Some 10\<rparr>])) = Some 10 \<and>
   btn_handlers (foldl (\<lambda>s data. update_points_then data s)
       (constructor \<lparr>review_points = Some 0\<rparr> ''me'' demo_parent demo_form)
       [\<lparr>review_points = Some 10\<rparr>]) = [Return_false] \<and>
   fst (review_button_click (foldl (\<lambda>s data. update_points_then data s)
       (constructor \<lparr>review_points = Some 0\<rparr> ''me'' demo_parent demo_form)
       [\<lparr>review_points = Some 10\<rparr>])) = []"
proof -
  have a: "\<not> Boolean (js_num (review_points \<lparr>review_points = Some 0\<rparr>))" by simp
  have b: "Show_review_dialog \<notin> set (parent_btn_handlers demo_parent)"
    by (simp add: demo_parent_def)
  from add_review_button_gated_at_construction [OF a b refl, of "''me''" demo_form
      "[\<lparr>review_points = Some 10\<rparr>]"] a b
  show ?thesis by (simp add: update_points_then_def demo_parent_def)
qed

end
